theory Spec2Isabelle
  imports Complex_Main
begin

section \<open>Python string operations used by app.py\<close>

text \<open>
  A Python \<open>str\<close> is modelled as a \<open>string\<close>; one \<open>char\<close> stands for one code
  point below 256. Only the operations that app.py applies are defined:
  \<open>sub in s\<close>, \<open>s.startswith(p)\<close>, \<open>s.split(':')\<close>, \<open>s.strip()\<close>,
  \<open>c.lower()\<close> and \<open>int(s)\<close>.
\<close>

fun startswith :: "string \<Rightarrow> string \<Rightarrow> bool" where
  "startswith s [] = True"
| "startswith [] (p # ps) = False"
| "startswith (c # cs) (p # ps) = (c = p \<and> startswith cs ps)"

text \<open>\<open>contains sub s\<close> is Python's \<open>sub in s\<close>.\<close>

fun contains :: "string \<Rightarrow> string \<Rightarrow> bool" where
  "contains sub [] = (sub = [])"
| "contains sub (c # cs) = (startswith (c # cs) sub \<or> contains sub cs)"

text \<open>
  \<open>split_on sep s\<close> is \<open>s.split(sep)\<close> for a separator of one character: the
  fields between the separators, at least one field.
\<close>

fun split_on :: "char \<Rightarrow> string \<Rightarrow> string list" where
  "split_on sep [] = [[]]"
| "split_on sep (c # cs) =
     (if c = sep then [] # split_on sep cs
      else (case split_on sep cs of
              [] \<Rightarrow> [[c]]
            | f # fs \<Rightarrow> (c # f) # fs))"

text \<open>\<open>xs[1]\<close>: the second element, or IndexError (\<open>None\<close>).\<close>

fun index1 :: "'a list \<Rightarrow> 'a option" where
  "index1 (x # y # ys) = Some y"
| "index1 xs = None"

text \<open>
  The characters \<open>str.strip()\<close> treats as white space, among the code points below
  256: TAB, LF, VT, FF, CR, FS, GS, RS, US, space, NEL and NBSP.
\<close>

definition is_space :: "char \<Rightarrow> bool" where
  "is_space c = ((of_char c :: nat) \<in> {9, 10, 11, 12, 13, 28, 29, 30, 31, 32, 133, 160})"

definition strip :: "string \<Rightarrow> string" where
  "strip s = rev (dropWhile is_space (rev (dropWhile is_space s)))"

text \<open>\<open>c.lower()\<close> for one character: A..Z and the capital letters of Latin-1.\<close>

definition lower_char :: "char \<Rightarrow> char" where
  "lower_char c =
     (let n = (of_char c :: nat)
      in if (65 \<le> n \<and> n \<le> 90) \<or> (192 \<le> n \<and> n \<le> 222 \<and> n \<noteq> 215)
         then char_of (n + 32) else c)"

subsection \<open>\<open>int(s)\<close>\<close>

definition is_digit :: "char \<Rightarrow> bool" where
  "is_digit c = (48 \<le> (of_char c :: nat) \<and> (of_char c :: nat) \<le> 57)"

definition digit_val :: "char \<Rightarrow> int" where
  "digit_val c = int (of_char c) - 48"

text \<open>
  The digits of a decimal literal, read from the left with the value so far. A single
  underscore may stand between two digits; \<open>prev\<close> tells whether the character before
  was a digit. Anything else is a ValueError (\<open>None\<close>).
\<close>

fun digits_val :: "bool \<Rightarrow> int \<Rightarrow> string \<Rightarrow> int option" where
  "digits_val prev acc [] = (if prev then Some acc else None)"
| "digits_val prev acc (c # cs) =
     (if is_digit c then digits_val True (10 * acc + digit_val c) cs
      else if c = CHR ''_'' \<and> prev then digits_val False acc cs
      else None)"

text \<open>
  The white space that \<open>int()\<close> skips at both ends of its argument: TAB, LF, VT, FF, CR
  and space, and beyond ASCII what \<open>str.strip()\<close> strips (NEL and NBSP). The
  separators FS, GS, RS and US are not skipped by \<open>int()\<close>.
\<close>

definition is_int_space :: "char \<Rightarrow> bool" where
  "is_int_space c = ((of_char c :: nat) \<in> {9, 10, 11, 12, 13, 32, 133, 160})"

definition int_strip :: "string \<Rightarrow> string" where
  "int_strip s = rev (dropWhile is_int_space (rev (dropWhile is_int_space s)))"

text \<open>The default of \<open>sys.get_int_max_str_digits()\<close>.\<close>

definition max_str_digits :: nat where
  "max_str_digits = 4300"

text \<open>
  \<open>py_int s\<close> is \<open>int(s)\<close> on a string: white space around, an optional sign, decimal
  digits, and no more than \<open>max_str_digits\<close> of them. \<open>None\<close> is the ValueError.
\<close>

definition py_int :: "string \<Rightarrow> int option" where
  "py_int s =
     (case int_strip s of
        [] \<Rightarrow> None
      | c # cs \<Rightarrow>
          if max_str_digits < length (filter is_digit (c # cs)) then None
          else if c = CHR ''-'' then map_option uminus (digits_val False 0 cs)
          else if c = CHR ''+'' then digits_val False 0 cs
          else digits_val False 0 (c # cs))"

text \<open>\<open>int(x)\<close> on a float: truncation towards zero.\<close>

definition trunc :: "real \<Rightarrow> int" where
  "trunc x = (if 0 \<le> x then \<lfloor>x\<rfloor> else \<lceil>x\<rceil>)"

section \<open>SerialThread\<close>

text \<open>
  The serial port object of pyserial, as far as app.py uses it: whether it is open, the
  strings written to it (one entry for each \<open>write\<close>, in order), and whether
  \<open>write\<close> raises (\<open>faulty\<close>, a fact of the device that the program cannot see).
\<close>

record port =
  is_open :: bool
  faulty :: bool
  written :: "string list"

text \<open>
  The messages passed to \<open>show_error\<close>, by the place that builds them (the text of
  the exception inside the message is left out).
\<close>

datatype notice =
    SerialWriteError
  | PortOpenFailed
  | VoiceRecognitionError
  | ErrorLine string
  | AlreadyConnected
  | NoValidPort
  | ConnectionFailed
  | SerialDataFailed
  | VoiceToggleFailed
  | StatusUpdateFailed

text \<open>
  \<open>error_occurred\<close> lists the emissions of the signal of that name, oldest first;
  \<open>alive\<close> is \<open>isRunning()\<close>.
\<close>

record serial_thread =
  ser :: "port option"
  port_name :: string
  running :: bool
  alive :: bool
  error_occurred :: "notice list"

text \<open>\<open>SerialThread.__init__\<close> followed by \<open>start()\<close>.\<close>

definition SerialThread :: "string \<Rightarrow> serial_thread" where
  "SerialThread p =
     \<lparr>ser = None, port_name = p, running = True, alive = True, error_occurred = []\<rparr>"

text \<open>
  The first step of \<open>SerialThread.run\<close>: opening the port succeeds (\<open>Some f\<close>, with
  \<open>f\<close> telling whether later writes raise) or raises (\<open>None\<close>). The second result is
  the text emitted on \<open>data_received\<close>.
\<close>

definition run_open :: "bool option \<Rightarrow> serial_thread \<Rightarrow> serial_thread \<times> string option" where
  "run_open outcome th =
     (case outcome of
        Some f \<Rightarrow>
          (th\<lparr>ser := Some \<lparr>is_open = True, faulty = f, written = []\<rparr>\<rparr>,
           Some ''Connected to Arduino'')
      | None \<Rightarrow>
          (th\<lparr>alive := False, error_occurred := error_occurred th @ [PortOpenFailed]\<rparr>,
           None))"

text \<open>\<open>SerialThread.send\<close>: the returned flag and the thread afterwards.\<close>

definition send :: "serial_thread \<Rightarrow> string \<Rightarrow> bool \<times> serial_thread" where
  "send th command =
     (case ser th of
        None \<Rightarrow> (False, th)
      | Some p \<Rightarrow>
          if is_open p then
            (if faulty p
             then (False, th\<lparr>error_occurred := error_occurred th @ [SerialWriteError]\<rparr>)
             else (True, th\<lparr>ser := Some (p\<lparr>written := written p @ [command]\<rparr>)\<rparr>))
          else (False, th))"

text \<open>\<open>SerialThread.close\<close>.\<close>

definition close :: "serial_thread \<Rightarrow> serial_thread" where
  "close th =
     (let th1 = th\<lparr>running := False\<rparr>;
          th2 = (case ser th1 of
                   None \<Rightarrow> th1
                 | Some p \<Rightarrow> if is_open p then th1\<lparr>ser := Some (p\<lparr>is_open := False\<rparr>)\<rparr> else th1)
      in th2\<lparr>alive := False\<rparr>)"

text \<open>Everything written to the port of a thread so far.\<close>

definition wire :: "serial_thread \<Rightarrow> string list" where
  "wire th = (case ser th of None \<Rightarrow> [] | Some p \<Rightarrow> written p)"

section \<open>VoiceThread\<close>

text \<open>What one round of listening and recognition gives.\<close>

datatype heard =
    Transcript string
  | WaitTimeoutError
  | UnknownValueError
  | RequestError

datatype voice_label = NotActive | Listening | Processing | Executing string string

datatype voice_entry =
    VoiceActivated
  | VoiceStopped
  | VoiceStarted
  | Voice string string
  | Unrecognized string
  | CouldNotUnderstand

datatype voice_signal =
    Status_updated voice_label
  | Voice_detected voice_entry
  | Voice_error notice

definition command_map :: "(string \<times> string) list" where
  "command_map =
     [(''forward'', ''F''), (''backward'', ''B''), (''back'', ''B''), (''left'', ''L''),
      (''right'', ''R''), (''spray'', ''P''), (''stop'', ''S'')]"

text \<open>The loop over \<open>command_map.items()\<close> with its \<open>break\<close>.\<close>

fun first_key_in :: "(string \<times> string) list \<Rightarrow> string \<Rightarrow> string option" where
  "first_key_in [] text = None"
| "first_key_in ((key, val) # kvs) text =
     (if contains key text then Some val else first_key_in kvs text)"

text \<open>
  One pass through the body of the loop of \<open>VoiceThread.run\<close>, on the thread's
  \<open>serial_thread\<close>: the serial thread afterwards, the signals emitted, and whether the
  loop goes on. The transcript is the recognised text after \<open>lower()\<close>.
\<close>

definition voice_iteration ::
    "heard \<Rightarrow> serial_thread \<Rightarrow> serial_thread \<times> voice_signal list \<times> bool" where
  "voice_iteration h th =
     (case h of
        Transcript text \<Rightarrow>
          (case first_key_in command_map text of
             Some cmd \<Rightarrow>
               (let (ok, th') = send th cmd
                in (th',
                    [Status_updated Listening, Status_updated Processing] @
                    (if ok then [Status_updated (Executing text cmd),
                                 Voice_detected (Voice text cmd)]
                     else []),
                    True))
           | None \<Rightarrow>
               (th,
                [Status_updated Listening, Status_updated Processing,
                 Status_updated Listening, Voice_detected (Unrecognized text)],
                True))
      | WaitTimeoutError \<Rightarrow> (th, [Status_updated Listening, Status_updated Listening], True)
      | UnknownValueError \<Rightarrow>
          (th,
           [Status_updated Listening, Status_updated Processing,
            Status_updated Listening, Voice_detected CouldNotUnderstand],
           True)
      | RequestError \<Rightarrow>
          (th,
           [Status_updated Listening, Status_updated Processing,
            Voice_error VoiceRecognitionError],
           False))"

text \<open>\<open>v_alive\<close> is \<open>isRunning()\<close>, \<open>v_running\<close> the flag of the loop.\<close>

record voice_thread =
  v_running :: bool
  v_alive :: bool
  v_error_occurred :: "notice list"

definition VoiceThread :: voice_thread where
  "VoiceThread = \<lparr>v_running = True, v_alive = True, v_error_occurred = []\<rparr>"

section \<open>AgnidevaControlCentre\<close>

text \<open>
  The lines appended to the three log panes, by the data they are formatted from; the
  time stamp in front of each line is left out.
\<close>

datatype log_entry =
    LogError notice
  | LogConnecting string
  | LogConnectedTo
  | LogDisconnected
  | LogModeSet string
  | LogSoil int int
  | LogInvalidSoil
  | LogLine string
  | LogReceived string

datatype normal_entry = NormalActivated | AutoActivated | WASD string

datatype auto_label = AutoReady | AutoScanning | AutoMode bool

text \<open>
  The fields of the window that the methods below read or write. \<open>listener\<close> tells
  whether a keyboard listener is installed; \<open>voice_btn\<close> whether the button reads
  "Stop Voice Control"; \<open>soil_tooltip\<close> is the percentage in the tool tip of the
  soil bar once one was shown; \<open>shown\<close> lists the message boxes shown. The texts of the
  labels are written without their pictograms. The list of ports in \<open>port_combo\<close>
  comes from the operating system and is not part of the model.
\<close>

record app =
  serial_thread :: "serial_thread option"
  voice_thread :: "voice_thread option"
  listener :: bool
  current_mode :: string
  last_cmd_time :: real
  active_keys :: "string set"
  status_label :: string
  mode_label :: string
  dist_label :: string
  auto_status :: auto_label
  soil_bar :: int
  soil_tooltip :: "int option"
  log_text :: "log_entry list"
  normal_status :: "normal_entry list"
  voice_status :: "voice_entry list"
  voice_status_label :: voice_label
  voice_btn :: bool
  connect_btn :: bool
  disconnect_btn :: bool
  dashboard :: bool
  shown :: "notice list"

text \<open>\<open>__init__\<close> with \<open>init_ui\<close>.\<close>

definition init_app :: app where
  "init_app =
     \<lparr>serial_thread = None, voice_thread = None, listener = False,
      current_mode = ''N'', last_cmd_time = 0, active_keys = {},
      status_label = ''Status: Ready to connect'', mode_label = ''Disconnected'',
      dist_label = ''-- cm'', auto_status = AutoReady, soil_bar = 0, soil_tooltip = None,
      log_text = [], normal_status = [], voice_status = [],
      voice_status_label = NotActive, voice_btn = False,
      connect_btn = True, disconnect_btn = False, dashboard = False, shown = []\<rparr>"

text \<open>
  \<open>disconnect_serial\<close>. The serial thread is closed and the reference to it dropped,
  so the closed thread is no longer part of the state; the same holds for the voice
  thread after its \<open>cleanup\<close>.
\<close>

definition disconnect_serial :: "app \<Rightarrow> app" where
  "disconnect_serial st =
     (let st1 = (case serial_thread st of
                   None \<Rightarrow> st
                 | Some th \<Rightarrow> st\<lparr>serial_thread := None\<rparr>);
          st2 = (case voice_thread st1 of
                   None \<Rightarrow> st1
                 | Some vt \<Rightarrow> st1\<lparr>voice_thread := None, voice_btn := False,
                                  voice_status_label := NotActive\<rparr>);
          st3 = (if listener st2 then st2\<lparr>listener := False\<rparr> else st2)
      in st3\<lparr>status_label := ''Status: Disconnected'',
             log_text := log_text st3 @ [LogDisconnected],
             connect_btn := True, disconnect_btn := False, dashboard := False,
             mode_label := ''None''\<rparr>)"

text \<open>\<open>show_error\<close>.\<close>

definition show_error :: "notice \<Rightarrow> app \<Rightarrow> app" where
  "show_error message st =
     disconnect_serial
       (st\<lparr>log_text := log_text st @ [LogError message], shown := shown st @ [message]\<rparr>)"

text \<open>
  \<open>connect_serial\<close> connects the signal \<open>error_occurred\<close> of the serial thread to
  \<open>show_error\<close>. \<open>emitted_since th th'\<close> lists what the thread has emitted on the way
  from \<open>th\<close> to \<open>th'\<close>; each of these notices reaches \<open>show_error\<close>.
\<close>

definition emitted_since :: "serial_thread \<Rightarrow> serial_thread \<Rightarrow> notice list" where
  "emitted_since th th' = drop (length (error_occurred th)) (error_occurred th')"

text \<open>
  \<open>self.serial_thread.send(cmd)\<close> on the window: \<open>None\<close> is the AttributeError
  raised when \<open>self.serial_thread\<close> is \<open>None\<close>. A write that raises makes the thread
  emit \<open>error_occurred\<close>, so \<open>show_error\<close> runs and the session is torn down.
\<close>

definition thread_send :: "string \<Rightarrow> app \<Rightarrow> (bool \<times> app) option" where
  "thread_send cmd st =
     (case serial_thread st of
        None \<Rightarrow> None
      | Some th \<Rightarrow>
          (let (ok, th') = send th cmd
           in Some (ok, fold show_error (emitted_since th th')
                          (st\<lparr>serial_thread := Some th'\<rparr>))))"

text \<open>
  \<open>moisture_percent = int((1023 - soil) / 1023 * 100)\<close>, with the division and the
  product taken in the reals. The line is reached only for a \<open>soil\<close> of 32 bits (see
  \<open>setValue\<close>); there the exact value is an integer only when \<open>1023 - soil\<close> is a
  multiple of 1023, where the floating-point result is exact, and is otherwise at least
  \<open>1 / 1023\<close> away from every integer, far more than the rounding error, so the
  truncation of the floating-point result is the truncation of the exact value.
\<close>

definition moisture_percent :: "int \<Rightarrow> int" where
  "moisture_percent soil = trunc ((1023 - real_of_int soil) / 1023 * 100)"

text \<open>
  \<open>self.soil_bar.setValue(soil)\<close> on the bar of range 0..1023 (\<open>setRange(0, 1023)\<close>
  in \<open>init_ui\<close>), with the value the bar holds: the value it holds afterwards. An
  argument that does not fit a signed integer of 32 bits raises OverflowError (\<open>None\<close>);
  one outside the range of the bar leaves its value as it is.
\<close>

definition setValue :: "int \<Rightarrow> int \<Rightarrow> int option" where
  "setValue soil held =
     (if soil < - 2147483648 \<or> 2147483647 < soil then None
      else Some (if 0 \<le> soil \<and> soil \<le> 1023 then soil else held))"

text \<open>\<open>handle_serial_data\<close>.\<close>

definition handle_serial_data :: "string \<Rightarrow> app \<Rightarrow> app" where
  "handle_serial_data data st =
     (if contains ''Error'' data then show_error (ErrorLine data) st
      else if contains ''Mode:'' data then
        (case index1 (split_on CHR '':'' data) of
           None \<Rightarrow> show_error SerialDataFailed st
         | Some f \<Rightarrow>
             (let mode = strip f
              in st\<lparr>current_mode := mode, mode_label := mode,
                    auto_status := AutoMode (mode = ''A''),
                    log_text := log_text st @ [LogModeSet mode]\<rparr>))
      else if startswith data ''Soil:'' then
        (case index1 (split_on CHR '':'' data) of
           None \<Rightarrow> st\<lparr>log_text := log_text st @ [LogInvalidSoil]\<rparr>
         | Some f \<Rightarrow>
             (case py_int f of
                None \<Rightarrow> st\<lparr>log_text := log_text st @ [LogInvalidSoil]\<rparr>
              | Some soil \<Rightarrow>
                  (case setValue soil (soil_bar st) of
                     None \<Rightarrow> st\<lparr>log_text := log_text st @ [LogInvalidSoil]\<rparr>
                   | Some v \<Rightarrow>
                       st\<lparr>soil_bar := v, soil_tooltip := Some (moisture_percent soil),
                          log_text := log_text st @ [LogSoil soil (moisture_percent soil)]\<rparr>)))
      else if startswith data ''Dist:'' then
        (case index1 (split_on CHR '':'' data) of
           None \<Rightarrow> st
         | Some f \<Rightarrow> st\<lparr>dist_label := strip f @ '' cm''\<rparr>)
      else if data = ''Connected to Arduino'' then
        st\<lparr>status_label := ''Status: Connected'', log_text := log_text st @ [LogLine data]\<rparr>
      else st\<lparr>log_text := log_text st @ [LogReceived data]\<rparr>)"

text \<open>
  The second branch of \<open>toggle_voice\<close>, taken when no voice thread is running: it
  starts one once \<open>V\<close> has been sent.
\<close>

definition start_voice :: "app \<Rightarrow> app" where
  "start_voice st =
     (case thread_send ''V'' st of
        None \<Rightarrow> show_error VoiceToggleFailed st
      | Some (ok, st') \<Rightarrow>
          if ok then
            st'\<lparr>voice_thread := Some VoiceThread, voice_btn := True,
                voice_status := voice_status st' @ [VoiceStarted]\<rparr>
          else st')"

text \<open>\<open>switch_mode\<close> and \<open>toggle_voice\<close>, which call each other.\<close>

function (sequential) switch_mode :: "string \<Rightarrow> app \<Rightarrow> app"
  and toggle_voice :: "app \<Rightarrow> app" where
  "switch_mode mode st =
     (case thread_send mode st of
        None \<Rightarrow> st
      | Some (ok, st0) \<Rightarrow>
          if ok then
            (let st1 = st0\<lparr>current_mode := mode, mode_label := mode\<rparr>
             in if mode = ''V'' \<and> voice_thread st1 = None then
                  st1\<lparr>voice_status := voice_status st1 @ [VoiceActivated]\<rparr>
                else if mode = ''A'' then
                  st1\<lparr>auto_status := AutoScanning,
                      normal_status := normal_status st1 @ [AutoActivated]\<rparr>
                else if mode = ''N'' then
                  (if voice_thread st1 \<noteq> None
                   then toggle_voice (st1\<lparr>normal_status := normal_status st1 @ [NormalActivated]\<rparr>)
                   else st1\<lparr>normal_status := normal_status st1 @ [NormalActivated]\<rparr>)
                else st1)
          else st0)"
| "toggle_voice st =
     (if (case voice_thread st of None \<Rightarrow> False | Some vt \<Rightarrow> v_alive vt) then
        (let st2 = switch_mode ''N'' (st\<lparr>voice_thread := None, voice_btn := False,
                                         voice_status_label := NotActive\<rparr>)
         in st2\<lparr>voice_status := voice_status st2 @ [VoiceStopped]\<rparr>)
      else start_voice st)"
  by pat_completeness auto

termination
proof (relation "measure (\<lambda>x. case x of
        Inl (m, st) \<Rightarrow> (case voice_thread st of None \<Rightarrow> 1 | Some v \<Rightarrow> 3)
      | Inr st \<Rightarrow> (case voice_thread st of None \<Rightarrow> 0 | Some v \<Rightarrow> 2))", goal_cases)
  case 1
  show ?case by simp
next
  case (2 mode st x2 ok st0 st1)
  then have "voice_thread st = voice_thread st1"
    by (auto simp: thread_send_def send_def emitted_since_def
        split: option.splits prod.splits if_splits)
  with 2 show ?case by (auto split: option.splits)
next
  case (3 st)
  then show ?case by (auto split: option.splits)
qed

subsection \<open>The keyboard listener\<close>

text \<open>
  A key as pynput reports it: a member of \<open>keyboard.Key\<close> (\<open>Key_other\<close> for any
  member the handlers do not name), or a \<open>KeyCode\<close>, whose \<open>char\<close> may be \<open>None\<close>.
\<close>

datatype key =
    Key_up | Key_down | Key_left | Key_right | Key_space | Key_other
  | KeyCode "char option"

text \<open>
  The chain of tests in \<open>on_press\<close> and \<open>on_release\<close> that computes \<open>cmd\<close>.
  Only a \<open>KeyCode\<close> has the attribute \<open>char\<close>; with \<open>char\<close> equal to \<open>None\<close>
  the first test raises AttributeError, which is the result \<open>None\<close>.
\<close>

fun key_cmd :: "key \<Rightarrow> string option" where
  "key_cmd Key_up = Some ''F''"
| "key_cmd Key_down = Some ''B''"
| "key_cmd Key_left = Some ''L''"
| "key_cmd Key_right = Some ''R''"
| "key_cmd Key_space = Some ''P''"
| "key_cmd Key_other = Some []"
| "key_cmd (KeyCode None) = None"
| "key_cmd (KeyCode (Some c)) =
     Some (if lower_char c = CHR ''w'' then ''F''
           else if lower_char c = CHR ''s'' then ''B''
           else if lower_char c = CHR ''a'' then ''L''
           else if lower_char c = CHR ''d'' then ''R''
           else [])"

definition priority_cmds :: "string list" where
  "priority_cmds = [''F'', ''B'', ''L'', ''R'', ''P'']"

text \<open>The loop of \<open>send_key_command\<close> over \<open>priority_cmds\<close>, with its \<open>break\<close>.\<close>

fun first_held :: "string list \<Rightarrow> string set \<Rightarrow> string \<Rightarrow> string" where
  "first_held [] keys cmd = cmd"
| "first_held (p_cmd # ps) keys cmd = (if p_cmd \<in> keys then p_cmd else first_held ps keys cmd)"

definition effective_cmd :: "string set \<Rightarrow> string" where
  "effective_cmd keys = first_held priority_cmds keys ''S''"

text \<open>\<open>send_key_command\<close>; \<open>None\<close> is the AttributeError of \<open>thread_send\<close>.\<close>

definition send_key_command :: "app \<Rightarrow> app option" where
  "send_key_command st =
     (let cmd = effective_cmd (active_keys st)
      in case thread_send cmd st of
           None \<Rightarrow> None
         | Some (ok, st') \<Rightarrow>
             Some (if ok then st'\<lparr>normal_status := normal_status st' @ [WASD cmd]\<rparr> else st'))"

text \<open>
  \<open>on_press\<close> and \<open>on_release\<close>. An exception inside the \<open>try\<close> is swallowed
  and leaves the state as it was when it was raised.
\<close>

definition on_press :: "key \<Rightarrow> app \<Rightarrow> app" where
  "on_press k st =
     (if current_mode st \<noteq> ''N'' \<or> serial_thread st = None then st
      else (case key_cmd k of
              None \<Rightarrow> st
            | Some cmd \<Rightarrow>
                if cmd \<noteq> [] then
                  (let st1 = st\<lparr>active_keys := insert cmd (active_keys st)\<rparr>
                   in case send_key_command st1 of None \<Rightarrow> st1 | Some st2 \<Rightarrow> st2)
                else st))"

definition on_release :: "key \<Rightarrow> app \<Rightarrow> app" where
  "on_release k st =
     (if current_mode st \<noteq> ''N'' \<or> serial_thread st = None then st
      else (case key_cmd k of
              None \<Rightarrow> st
            | Some cmd \<Rightarrow>
                if cmd \<in> active_keys st then
                  (let st1 = st\<lparr>active_keys := active_keys st - {cmd}\<rparr>
                   in case send_key_command st1 of None \<Rightarrow> st1 | Some st2 \<Rightarrow> st2)
                else st))"

definition start_key_listener :: "app \<Rightarrow> app" where
  "start_key_listener st = st\<lparr>listener := True\<rparr>"

subsection \<open>The timer\<close>

text \<open>
  \<open>update_status\<close>, the slot of the timer of one second. \<open>t1\<close> and \<open>t2\<close> are the
  two readings of \<open>time.time()\<close>, in seconds, taken as real numbers.
\<close>

definition update_status :: "real \<Rightarrow> real \<Rightarrow> app \<Rightarrow> app" where
  "update_status t1 t2 st =
     (case serial_thread st of
        None \<Rightarrow> st\<lparr>dist_label := ''-- cm''\<rparr>
      | Some th \<Rightarrow>
          (let st1 = (if current_mode st \<in> set [''A'', ''N'', ''V'']
                      then (case thread_send ''D'' st of
                              None \<Rightarrow> st
                            | Some (ok, st') \<Rightarrow> st')
                      else st)
           in if t1 - last_cmd_time st1 > 5 then
                (case thread_send ''S'' st1 of
                   None \<Rightarrow> show_error StatusUpdateFailed st1
                 | Some (ok, st2) \<Rightarrow> st2\<lparr>last_cmd_time := t2\<rparr>)
              else st1))"

subsection \<open>The voice thread at work\<close>

text \<open>The slots connected to the three signals of the voice thread.\<close>

fun deliver :: "voice_signal \<Rightarrow> app \<Rightarrow> app" where
  "deliver (Status_updated msg) st = st\<lparr>voice_status_label := msg\<rparr>"
| "deliver (Voice_detected msg) st = st\<lparr>voice_status := voice_status st @ [msg]\<rparr>"
| "deliver (Voice_error msg) st = show_error msg st"

text \<open>
  One pass of the loop of the voice thread, when one is running, followed by the
  delivery of its signals and of what the serial thread emitted during the pass. The
  voice thread was given the serial thread of the window when it was made, and
  \<open>disconnect_serial\<close> drops both together, so the pass works on \<open>serial_thread st\<close>.
  After the \<open>break\<close> the thread runs \<open>cleanup\<close> and ends.
\<close>

definition voice_event :: "heard \<Rightarrow> app \<Rightarrow> app" where
  "voice_event h st =
     (case voice_thread st of
        None \<Rightarrow> st
      | Some vt \<Rightarrow>
          if v_running vt \<and> v_alive vt then
            (case serial_thread st of
               None \<Rightarrow> st
             | Some th \<Rightarrow>
                 (case voice_iteration h th of
                    (th', signals, continue) \<Rightarrow>
                      fold show_error (emitted_since th th')
                        (fold deliver signals
                          (st\<lparr>serial_thread := Some th',
                              voice_thread :=
                                Some (if continue then vt
                                      else vt\<lparr>v_running := False, v_alive := False\<rparr>)\<rparr>))))
          else st)"

subsection \<open>Connecting\<close>

text \<open>\<open>connect_serial\<close>, with the text of \<open>port_combo\<close> as \<open>port\<close>.\<close>

definition connect_serial :: "string \<Rightarrow> app \<Rightarrow> app" where
  "connect_serial port st =
     (if (case serial_thread st of None \<Rightarrow> False | Some th \<Rightarrow> alive th)
      then show_error AlreadyConnected st
      else if port = [] \<or> contains ''No ports'' port then show_error NoValidPort st
      else st\<lparr>status_label := ''Status: Connecting...'',
              log_text := log_text st @ [LogConnecting port],
              serial_thread := Some (SerialThread port)\<rparr>)"

text \<open>
  The new thread opens its port and the window receives what it emits:
  \<open>handle_serial_data\<close> for \<open>data_received\<close>, \<open>show_error\<close> for \<open>error_occurred\<close>.
\<close>

definition thread_started :: "bool option \<Rightarrow> app \<Rightarrow> app" where
  "thread_started outcome st =
     (case serial_thread st of
        None \<Rightarrow> st
      | Some th \<Rightarrow>
          (case run_open outcome th of
             (th', Some data) \<Rightarrow> handle_serial_data data (st\<lparr>serial_thread := Some th'\<rparr>)
           | (th', None) \<Rightarrow> show_error PortOpenFailed (st\<lparr>serial_thread := Some th'\<rparr>)))"

text \<open>\<open>check_connection_status\<close>, two seconds after \<open>connect_serial\<close>.\<close>

definition check_connection_status :: "app \<Rightarrow> app" where
  "check_connection_status st =
     (if (case serial_thread st of None \<Rightarrow> False | Some th \<Rightarrow> alive th)
         \<and> contains ''Connected'' (status_label st)
      then start_key_listener
             (switch_mode ''N''
               (st\<lparr>log_text := log_text st @ [LogConnectedTo],
                   connect_btn := False, disconnect_btn := True, dashboard := True\<rparr>))
      else show_error ConnectionFailed st)"

text \<open>
  A session as the program sets it up: connect to a port that opens and whose writes
  succeed, then the check two seconds later.
\<close>

definition connected_app :: app where
  "connected_app =
     check_connection_status (thread_started (Some False) (connect_serial ''COM3'' init_app))"

section \<open>Observations\<close>

text \<open>
  \<open>link_up st\<close>: the window has a serial thread whose port is open and accepts
  writes. \<open>sent st\<close>: what has been written to that port so far, one entry for each
  write.
\<close>

definition link_up :: "app \<Rightarrow> bool" where
  "link_up st =
     (case serial_thread st of
        None \<Rightarrow> False
      | Some th \<Rightarrow> (case ser th of None \<Rightarrow> False | Some p \<Rightarrow> is_open p \<and> \<not> faulty p))"

definition sent :: "app \<Rightarrow> string list" where
  "sent st = (case serial_thread st of None \<Rightarrow> [] | Some th \<Rightarrow> wire th)"

section \<open>Sending through the window\<close>

declare switch_mode.simps [simp del] toggle_voice.simps [simp del]

text \<open>\<open>thread_send\<close>, case by case.\<close>

lemma thread_send_eq:
  "thread_send c st =
     (case serial_thread st of
        None \<Rightarrow> None
      | Some th \<Rightarrow>
          (case ser th of
             None \<Rightarrow> Some (False, st)
           | Some p \<Rightarrow>
               if \<not> is_open p then Some (False, st)
               else if faulty p then
                 Some (False,
                   show_error SerialWriteError
                     (st\<lparr>serial_thread :=
                          Some (th\<lparr>error_occurred := error_occurred th @ [SerialWriteError]\<rparr>)\<rparr>))
               else Some (True,
                   st\<lparr>serial_thread :=
                        Some (th\<lparr>ser := Some (p\<lparr>written := written p @ [c]\<rparr>)\<rparr>)\<rparr>)))"
  by (auto simp: thread_send_def send_def emitted_since_def split: option.splits)

section \<open>The session used in the examples\<close>

lemma connected_app_eq:
  "connected_app =
     init_app\<lparr>serial_thread :=
        Some \<lparr>ser = Some \<lparr>is_open = True, faulty = False, written = [''N'']\<rparr>,
              port_name = ''COM3'', running = True, alive = True, error_occurred = []\<rparr>,
      listener := True, status_label := ''Status: Connected'', mode_label := ''N'',
      log_text := [LogConnecting ''COM3'', LogLine ''Connected to Arduino'', LogConnectedTo],
      normal_status := [NormalActivated],
      connect_btn := False, disconnect_btn := True, dashboard := True\<rparr>"
  by (simp add: connected_app_def check_connection_status_def thread_started_def
      connect_serial_def init_app_def run_open_def SerialThread_def handle_serial_data_def
      start_key_listener_def thread_send_eq
      switch_mode.simps)

section \<open>The transport\<close>

text \<open>
  C10. \<open>send\<close> returns \<open>False\<close> and leaves the thread as it was when there is no
  port object or the port is not open; when the write raises it returns \<open>False\<close>,
  emits \<open>error_occurred\<close> and writes nothing. It returns \<open>True\<close> only when an open
  port took the write. So a command sent through a window whose thread has no open port
  is dropped: the call returns \<open>False\<close> and the state is unchanged.
\<close>

theorem send_closed_or_failing:
  "((ser th = None \<or> (\<exists>p. ser th = Some p \<and> \<not> is_open p)) \<longrightarrow>
      send th command = (False, th))
   \<and> ((\<exists>p. ser th = Some p \<and> is_open p \<and> faulty p) \<longrightarrow>
        send th command =
          (False, th\<lparr>error_occurred := error_occurred th @ [SerialWriteError]\<rparr>))
   \<and> (\<not> fst (send th command) \<longrightarrow> wire (snd (send th command)) = wire th)
   \<and> (fst (send th command) \<longleftrightarrow> (\<exists>p. ser th = Some p \<and> is_open p \<and> \<not> faulty p))
   \<and> (serial_thread st = Some th \<and> (ser th = None \<or> (\<exists>p. ser th = Some p \<and> \<not> is_open p)) \<longrightarrow>
        thread_send command st = Some (False, st))"
  by (auto simp: send_def wire_def thread_send_eq split: option.splits)

theorem send_closed_or_failing_witness:
  "send (SerialThread ''COM3'') ''F'' = (False, SerialThread ''COM3'')
   \<and> send \<lparr>ser = Some \<lparr>is_open = False, faulty = False, written = [''N'']\<rparr>,
            port_name = ''COM3'', running = False, alive = False, error_occurred = []\<rparr> ''F''
       = (False, \<lparr>ser = Some \<lparr>is_open = False, faulty = False, written = [''N'']\<rparr>,
            port_name = ''COM3'', running = False, alive = False, error_occurred = []\<rparr>)
   \<and> send \<lparr>ser = Some \<lparr>is_open = True, faulty = True, written = []\<rparr>,
            port_name = ''COM3'', running = True, alive = True, error_occurred = []\<rparr> ''F''
       = (False, \<lparr>ser = Some \<lparr>is_open = True, faulty = True, written = []\<rparr>,
            port_name = ''COM3'', running = True, alive = True,
            error_occurred = [SerialWriteError]\<rparr>)"
  using send_closed_or_failing [of "SerialThread ''COM3''" "''F''"]
    send_closed_or_failing
      [of "\<lparr>ser = Some \<lparr>is_open = False, faulty = False, written = [''N'']\<rparr>,
            port_name = ''COM3'', running = False, alive = False, error_occurred = []\<rparr>" "''F''"]
    send_closed_or_failing
      [of "\<lparr>ser = Some \<lparr>is_open = True, faulty = True, written = []\<rparr>,
            port_name = ''COM3'', running = True, alive = True, error_occurred = []\<rparr>" "''F''"]
  by (simp add: SerialThread_def)

section \<open>What a send leaves unchanged\<close>

lemma thread_send_link_up:
  assumes "link_up st"
  obtains th' where "thread_send c st = Some (True, st\<lparr>serial_thread := Some th'\<rparr>)"
    and "wire th' = sent st @ [c]" and "link_up (st\<lparr>serial_thread := Some th'\<rparr>)"
  using assms
  by (auto simp: link_up_def thread_send_eq sent_def wire_def split: option.splits)

lemma current_mode_show_error [simp]: "current_mode (show_error m st) = current_mode st"
  by (simp add: show_error_def disconnect_serial_def Let_def split: option.splits)

lemma last_cmd_time_show_error [simp]: "last_cmd_time (show_error m st) = last_cmd_time st"
  by (simp add: show_error_def disconnect_serial_def Let_def split: option.splits)

lemma voice_thread_show_error [simp]: "voice_thread (show_error m st) = None"
  by (simp add: show_error_def disconnect_serial_def Let_def split: option.splits)

lemma serial_thread_show_error [simp]: "serial_thread (show_error m st) = None"
  by (simp add: show_error_def disconnect_serial_def Let_def split: option.splits)

lemma thread_send_link_down:
  assumes "\<not> link_up st"
  shows "thread_send c st = None
     \<or> (\<exists>st'. thread_send c st = Some (False, st') \<and> current_mode st' = current_mode st
           \<and> \<not> link_up st')"
  using assms
  by (auto simp: link_up_def thread_send_eq sent_def wire_def split: option.splits)

lemma thread_send_no_voice:
  "thread_send c st = Some (ok, st') \<Longrightarrow> voice_thread st = None \<Longrightarrow> voice_thread st' = None"
  by (auto simp: thread_send_eq split: option.splits if_splits)

lemma switch_mode_no_voice:
  assumes "voice_thread st = None"
  shows "switch_mode m st =
     (case thread_send m st of
        None \<Rightarrow> st
      | Some (ok, st0) \<Rightarrow>
          if ok then
            (let st1 = st0\<lparr>current_mode := m, mode_label := m\<rparr>
             in if m = ''V'' then st1\<lparr>voice_status := voice_status st1 @ [VoiceActivated]\<rparr>
                else if m = ''A'' then
                  st1\<lparr>auto_status := AutoScanning,
                      normal_status := normal_status st1 @ [AutoActivated]\<rparr>
                else if m = ''N'' then
                  st1\<lparr>normal_status := normal_status st1 @ [NormalActivated]\<rparr>
                else st1)
          else st0)"
proof (cases "thread_send m st")
  case None
  then show ?thesis by (simp add: switch_mode.simps)
next
  case (Some r)
  obtain ok st0 where r: "r = (ok, st0)" by (cases r)
  with Some have "voice_thread st0 = None"
    using assms thread_send_no_voice [of m st ok st0] by auto
  with Some r show ?thesis by (simp add: switch_mode.simps Let_def)
qed

lemma last_cmd_time_thread_send:
  "thread_send c st = Some (ok, st') \<Longrightarrow> last_cmd_time st' = last_cmd_time st"
  by (auto simp: thread_send_eq split: option.splits if_splits)

lemma last_cmd_time_switch_no_voice:
  "voice_thread st = None \<Longrightarrow> last_cmd_time (switch_mode m st) = last_cmd_time st"
  by (auto simp: switch_mode_no_voice Let_def dest: last_cmd_time_thread_send
      split: option.splits prod.splits)

lemma last_cmd_time_start_voice: "last_cmd_time (start_voice st) = last_cmd_time st"
  by (auto simp: start_voice_def dest: last_cmd_time_thread_send split: option.splits prod.splits)

lemma last_cmd_time_toggle_voice: "last_cmd_time (toggle_voice st) = last_cmd_time st"
  by (simp add: toggle_voice.simps Let_def last_cmd_time_switch_no_voice last_cmd_time_start_voice)

lemma last_cmd_time_switch_mode: "last_cmd_time (switch_mode m st) = last_cmd_time st"
  by (auto simp: switch_mode.simps [of m st] Let_def last_cmd_time_toggle_voice
      dest: last_cmd_time_thread_send split: option.splits prod.splits)

lemma send_key_command_link_up:
  assumes "link_up st"
  obtains th' where
    "send_key_command st =
       Some (st\<lparr>serial_thread := Some th',
                normal_status := normal_status st @ [WASD (effective_cmd (active_keys st))]\<rparr>)"
    and "wire th' = sent st @ [effective_cmd (active_keys st)]"
proof -
  from assms obtain th' where
    "thread_send (effective_cmd (active_keys st)) st = Some (True, st\<lparr>serial_thread := Some th'\<rparr>)"
    "wire th' = sent st @ [effective_cmd (active_keys st)]"
    by (rule thread_send_link_up)
  then show ?thesis by (intro that [of th']) (simp_all add: send_key_command_def)
qed

lemma last_cmd_time_send_key_command:
  "send_key_command st = Some st' \<Longrightarrow> last_cmd_time st' = last_cmd_time st"
  by (auto simp: send_key_command_def Let_def dest: last_cmd_time_thread_send
      split: option.splits prod.splits if_splits)

lemma last_cmd_time_on_press: "last_cmd_time (on_press k st) = last_cmd_time st"
  by (auto simp: on_press_def Let_def dest: last_cmd_time_send_key_command split: option.splits)

lemma last_cmd_time_on_release: "last_cmd_time (on_release k st) = last_cmd_time st"
  by (auto simp: on_release_def Let_def dest: last_cmd_time_send_key_command split: option.splits)

lemma last_cmd_time_deliver: "last_cmd_time (deliver s st) = last_cmd_time st"
  by (cases s) simp_all

lemma last_cmd_time_fold_deliver: "last_cmd_time (fold deliver ss st) = last_cmd_time st"
  by (induction ss arbitrary: st) (simp_all add: last_cmd_time_deliver)

lemma last_cmd_time_fold_show_error:
  "last_cmd_time (fold show_error es st) = last_cmd_time st"
  by (induction es arbitrary: st) simp_all

lemma last_cmd_time_voice_event: "last_cmd_time (voice_event h st) = last_cmd_time st"
  by (simp add: voice_event_def last_cmd_time_fold_deliver last_cmd_time_fold_show_error
      split: option.splits prod.splits)

lemma last_cmd_time_handle_serial_data:
  "last_cmd_time (handle_serial_data d st) = last_cmd_time st"
  by (simp add: handle_serial_data_def Let_def split: option.splits)

lemmas run_defs = on_press_def on_release_def send_key_command_def thread_send_eq send_def
  emitted_since_def
  effective_cmd_def priority_cmds_def connected_app_eq init_app_def sent_def wire_def
  link_up_def update_status_def Let_def

lemma mode_A_ack:
  "current_mode (handle_serial_data ''Mode:A'' connected_app) = ''A''"
  by (simp add: handle_serial_data_def strip_def is_space_def Let_def)

section \<open>The key arbiter\<close>

lemma first_held_none: "\<forall>p\<in>set ps. p \<notin> S \<Longrightarrow> first_held ps S d = d"
  by (induction ps) auto

lemma first_held_some:
  "\<exists>p\<in>set ps. p \<in> S \<Longrightarrow>
   \<exists>i<length ps. first_held ps S d = ps ! i \<and> ps ! i \<in> S \<and> (\<forall>j<i. ps ! j \<notin> S)"
proof (induction ps)
  case Nil
  then show ?case by simp
next
  case (Cons p ps)
  show ?case
  proof (cases "p \<in> S")
    case True
    then have "first_held (p # ps) S d = (p # ps) ! 0 \<and> (p # ps) ! 0 \<in> S
        \<and> (\<forall>j<0. (p # ps) ! j \<notin> S)"
      by simp
    then show ?thesis by blast
  next
    case False
    with Cons.prems have "\<exists>q\<in>set ps. q \<in> S" by auto
    from Cons.IH [OF this] obtain i where i: "i < length ps" "first_held ps S d = ps ! i"
      "ps ! i \<in> S" "\<forall>j<i. ps ! j \<notin> S" by blast
    have "\<forall>j<Suc i. (p # ps) ! j \<notin> S"
    proof (intro allI impI)
      fix j assume "j < Suc i"
      then show "(p # ps) ! j \<notin> S" using False i(4) by (cases j) auto
    qed
    with i False have "Suc i < length (p # ps) \<and> first_held (p # ps) S d = (p # ps) ! Suc i
        \<and> (p # ps) ! Suc i \<in> S \<and> (\<forall>j<Suc i. (p # ps) ! j \<notin> S)"
      by simp
    then show ?thesis by blast
  qed
qed

text \<open>
  C5. The command computed by \<open>send_key_command\<close> from the set \<open>S\<close> of held keys is a
  function of \<open>S\<close>: the first member of \<open>F, B, L, R, P\<close> that is in \<open>S\<close>, and \<open>S\<close>
  (Stop) when none of them is, in particular when \<open>S\<close> is empty. This is the command that
  \<open>send_key_command\<close> writes.
\<close>

theorem effective_cmd_priority:
  "priority_cmds = [''F'', ''B'', ''L'', ''R'', ''P'']
   \<and> (S = {} \<longrightarrow> effective_cmd S = ''S'')
   \<and> ((\<forall>p\<in>set priority_cmds. p \<notin> S) \<longrightarrow> effective_cmd S = ''S'')
   \<and> ((\<exists>p\<in>set priority_cmds. p \<in> S) \<longrightarrow>
        (\<exists>i<length priority_cmds.
           effective_cmd S = priority_cmds ! i \<and> priority_cmds ! i \<in> S
           \<and> (\<forall>j<i. priority_cmds ! j \<notin> S)))
   \<and> (link_up st \<longrightarrow>
        (\<exists>st'. send_key_command st = Some st'
           \<and> sent st' = sent st @ [effective_cmd (active_keys st)]))"
proof (intro conjI impI)
  show "priority_cmds = [''F'', ''B'', ''L'', ''R'', ''P'']" by (simp add: priority_cmds_def)
  show "effective_cmd S = ''S''" if "S = {}"
    using that by (simp add: effective_cmd_def first_held_none)
  show "effective_cmd S = ''S''" if "\<forall>p\<in>set priority_cmds. p \<notin> S"
    using that unfolding effective_cmd_def by (rule first_held_none)
  show "\<exists>i<length priority_cmds.
           effective_cmd S = priority_cmds ! i \<and> priority_cmds ! i \<in> S
           \<and> (\<forall>j<i. priority_cmds ! j \<notin> S)" if "\<exists>p\<in>set priority_cmds. p \<in> S"
    using that unfolding effective_cmd_def by (rule first_held_some)
  show "\<exists>st'. send_key_command st = Some st'
           \<and> sent st' = sent st @ [effective_cmd (active_keys st)]" if "link_up st"
  proof -
    from that obtain th' where
      "send_key_command st =
         Some (st\<lparr>serial_thread := Some th',
                  normal_status := normal_status st @ [WASD (effective_cmd (active_keys st))]\<rparr>)"
      "wire th' = sent st @ [effective_cmd (active_keys st)]"
      by (rule send_key_command_link_up)
    then show ?thesis by (simp add: sent_def)
  qed
qed

theorem effective_cmd_priority_witness:
  "effective_cmd {} = ''S''
   \<and> effective_cmd {''x''} = ''S''
   \<and> (\<exists>i<length priority_cmds.
         effective_cmd {''P'', ''L''} = priority_cmds ! i \<and> priority_cmds ! i \<in> {''P'', ''L''}
         \<and> (\<forall>j<i. priority_cmds ! j \<notin> {''P'', ''L''}))
   \<and> effective_cmd {''P'', ''L''} = ''L''
   \<and> (\<exists>st'. send_key_command connected_app = Some st'
         \<and> sent st' = sent connected_app @ [effective_cmd (active_keys connected_app)])"
proof -
  have h1: "\<forall>p\<in>set priority_cmds. p \<notin> {''x''}" by (simp add: priority_cmds_def)
  have h2: "\<exists>p\<in>set priority_cmds. p \<in> {''P'', ''L''}" by (simp add: priority_cmds_def)
  have h3: "link_up connected_app" by (simp add: connected_app_eq init_app_def link_up_def)
  have e: "effective_cmd {''P'', ''L''} = ''L''"
    by (simp add: effective_cmd_def priority_cmds_def)
  from effective_cmd_priority [of "{}" connected_app]
    effective_cmd_priority [of "{''x''}" connected_app]
    effective_cmd_priority [of "{''P'', ''L''}" connected_app] h1 h2 h3 e
  show ?thesis by blast
qed

text \<open>
  C3. While the current mode is not \<open>N\<close>, a key press or release changes nothing: the
  state after the handler is the state before it, so nothing is written to the port and
  no error is reported.
\<close>

theorem keys_gated_outside_normal:
  "current_mode st \<noteq> ''N'' \<longrightarrow>
     on_press k st = st \<and> on_release k st = st
     \<and> sent (on_press k st) = sent st \<and> sent (on_release k st) = sent st"
  by (simp add: on_press_def on_release_def)

theorem keys_gated_outside_normal_witness:
  "on_press Key_up (handle_serial_data ''Mode:A'' connected_app)
     = handle_serial_data ''Mode:A'' connected_app
   \<and> on_release (KeyCode (Some CHR ''w'')) (handle_serial_data ''Mode:A'' connected_app)
     = handle_serial_data ''Mode:A'' connected_app"
  using keys_gated_outside_normal [of "handle_serial_data ''Mode:A'' connected_app" Key_up]
    keys_gated_outside_normal
      [of "handle_serial_data ''Mode:A'' connected_app" "KeyCode (Some CHR ''w'')"]
  by (simp add: mode_A_ack)

text \<open>
  C6, as the claim states it, fails: with Up already held, a second press of Up writes
  \<open>F\<close> once more.
\<close>

theorem repeated_press_counterexample:
  "''F'' \<in> active_keys (on_press Key_up connected_app)
   \<and> sent (on_press Key_up connected_app) = [''N'', ''F'']
   \<and> sent (on_press Key_up (on_press Key_up connected_app)) = [''N'', ''F'', ''F'']"
  by (simp add: run_defs)

text \<open>
  C6, amended. In mode \<open>N\<close> with a port that accepts writes, pressing a key whose
  command is already held leaves the held set as it is and writes the effective command
  of that set once more.
\<close>

theorem repeated_press_resends:
  "current_mode st = ''N'' \<and> link_up st \<and> key_cmd k = Some c \<and> c \<noteq> [] \<and> c \<in> active_keys st
   \<longrightarrow> active_keys (on_press k st) = active_keys st
       \<and> sent (on_press k st) = sent st @ [effective_cmd (active_keys st)]"
proof (intro impI, elim conjE)
  assume a: "current_mode st = ''N''" "link_up st" "key_cmd k = Some c" "c \<noteq> []"
    "c \<in> active_keys st"
  then have ins: "insert c (active_keys st) = active_keys st" by blast
  from a(2) have "serial_thread st \<noteq> None" by (auto simp: link_up_def split: option.splits)
  from a(2) obtain th' where
    "send_key_command st =
       Some (st\<lparr>serial_thread := Some th',
                normal_status := normal_status st @ [WASD (effective_cmd (active_keys st))]\<rparr>)"
    "wire th' = sent st @ [effective_cmd (active_keys st)]"
    by (rule send_key_command_link_up)
  with a \<open>serial_thread st \<noteq> None\<close> ins
  show "active_keys (on_press k st) = active_keys st
       \<and> sent (on_press k st) = sent st @ [effective_cmd (active_keys st)]"
    by (simp add: on_press_def sent_def)
qed

theorem repeated_press_resends_witness:
  "active_keys (on_press Key_up (on_press Key_up connected_app))
     = active_keys (on_press Key_up connected_app)
   \<and> sent (on_press Key_up (on_press Key_up connected_app))
     = sent (on_press Key_up connected_app)
        @ [effective_cmd (active_keys (on_press Key_up connected_app))]"
proof -
  have "current_mode (on_press Key_up connected_app) = ''N''
      \<and> link_up (on_press Key_up connected_app)
      \<and> key_cmd Key_up = Some ''F'' \<and> ''F'' \<noteq> []
      \<and> ''F'' \<in> active_keys (on_press Key_up connected_app)"
    by (simp add: run_defs)
  with repeated_press_resends [of "on_press Key_up connected_app" Key_up "''F''"]
  show ?thesis by blast
qed

section \<open>The failsafe timer\<close>

lemma update_status_link_up:
  assumes "link_up st"
  shows "sent (update_status t1 t2 st) =
       sent st @ (if current_mode st \<in> {''A'', ''N'', ''V''} then [''D''] else [])
         @ (if 5 < t1 - last_cmd_time st then [''S''] else [])"
    and "last_cmd_time (update_status t1 t2 st) =
       (if 5 < t1 - last_cmd_time st then t2 else last_cmd_time st)"
    and "link_up (update_status t1 t2 st)"
    and "current_mode (update_status t1 t2 st) = current_mode st"
  using assms
  by (auto simp: update_status_def link_up_def thread_send_eq sent_def wire_def Let_def
      split: option.splits)

text \<open>
  C1, as the claim states it, fails: sending a command does not reset the timer. Below,
  the tick at second 100 sends Stop and sets \<open>last_cmd_time\<close>; the tick at second 105
  sends none; then Up is pressed and \<open>F\<close> is written, which leaves \<open>last_cmd_time\<close>
  at 100; the tick at second 106, less than a second after \<open>F\<close>, sends Stop again.
\<close>

theorem failsafe_tick_counterexample:
  "sent (update_status 105 105 (update_status 100 100 connected_app))
     = [''N'', ''D'', ''S'', ''D'']
   \<and> sent (on_press Key_up (update_status 105 105 (update_status 100 100 connected_app)))
     = [''N'', ''D'', ''S'', ''D'', ''F'']
   \<and> last_cmd_time (on_press Key_up (update_status 105 105 (update_status 100 100 connected_app)))
     = 100
   \<and> sent (update_status 106 106
        (on_press Key_up (update_status 105 105 (update_status 100 100 connected_app))))
     = [''N'', ''D'', ''S'', ''D'', ''F'', ''D'', ''S'']"
  by (simp add: run_defs)

text \<open>
  C1, amended. With a port that accepts writes, a tick whose first clock reading is more
  than five seconds after \<open>last_cmd_time\<close> writes \<open>S\<close> once (after the distance
  poll \<open>D\<close>, which is sent in the modes A, N and V) and sets \<open>last_cmd_time\<close> to its
  second clock reading; a tick that is not that late writes no \<open>S\<close> and leaves
  \<open>last_cmd_time\<close> alone, so the tick following a Stop within five seconds sends none.
  Only the tick writes \<open>last_cmd_time\<close>: key presses and releases, mode switches, the
  voice thread and telemetry leave it unchanged, whatever they send.
\<close>

theorem failsafe_tick:
  "(link_up st \<longrightarrow>
      (5 < t1 - last_cmd_time st \<longrightarrow>
         sent (update_status t1 t2 st) =
           sent st @ (if current_mode st \<in> {''A'', ''N'', ''V''} then [''D''] else []) @ [''S'']
         \<and> last_cmd_time (update_status t1 t2 st) = t2)
      \<and> (t1 - last_cmd_time st \<le> 5 \<longrightarrow>
         sent (update_status t1 t2 st) =
           sent st @ (if current_mode st \<in> {''A'', ''N'', ''V''} then [''D''] else [])
         \<and> last_cmd_time (update_status t1 t2 st) = last_cmd_time st)
      \<and> (5 < t1 - last_cmd_time st \<and> t3 - t2 \<le> 5 \<longrightarrow>
         sent (update_status t3 t4 (update_status t1 t2 st)) =
           sent st @ (if current_mode st \<in> {''A'', ''N'', ''V''} then [''D''] else []) @ [''S'']
             @ (if current_mode st \<in> {''A'', ''N'', ''V''} then [''D''] else [])))
   \<and> last_cmd_time (on_press k st) = last_cmd_time st
   \<and> last_cmd_time (on_release k st) = last_cmd_time st
   \<and> last_cmd_time (switch_mode m st) = last_cmd_time st
   \<and> last_cmd_time (toggle_voice st) = last_cmd_time st
   \<and> last_cmd_time (voice_event h st) = last_cmd_time st
   \<and> last_cmd_time (handle_serial_data d st) = last_cmd_time st"
proof -
  have a: "sent (update_status t1 t2 st) =
           sent st @ (if current_mode st \<in> {''A'', ''N'', ''V''} then [''D''] else []) @ [''S'']
         \<and> last_cmd_time (update_status t1 t2 st) = t2"
    if "link_up st" "5 < t1 - last_cmd_time st"
    using that update_status_link_up(1,2) [of st t1 t2] by simp
  have b: "sent (update_status t1 t2 st) =
           sent st @ (if current_mode st \<in> {''A'', ''N'', ''V''} then [''D''] else [])
         \<and> last_cmd_time (update_status t1 t2 st) = last_cmd_time st"
    if "link_up st" "t1 - last_cmd_time st \<le> 5"
    using that update_status_link_up(1,2) [of st t1 t2] by simp
  have c: "sent (update_status t3 t4 (update_status t1 t2 st)) =
           sent st @ (if current_mode st \<in> {''A'', ''N'', ''V''} then [''D''] else []) @ [''S'']
             @ (if current_mode st \<in> {''A'', ''N'', ''V''} then [''D''] else [])"
    if "link_up st" "5 < t1 - last_cmd_time st" "t3 - t2 \<le> 5"
  proof -
    let ?st' = "update_status t1 t2 st"
    from that(1) have l: "link_up ?st'" and m: "current_mode ?st' = current_mode st"
      by (rule update_status_link_up)+
    from a that have s: "sent ?st' =
           sent st @ (if current_mode st \<in> {''A'', ''N'', ''V''} then [''D''] else []) @ [''S'']"
      and t: "last_cmd_time ?st' = t2" by simp_all
    from update_status_link_up(1) [OF l, of t3 t4] that(3) s t m show ?thesis by simp
  qed
  from a b c show ?thesis
    by (simp only: last_cmd_time_on_press last_cmd_time_on_release last_cmd_time_switch_mode
        last_cmd_time_toggle_voice last_cmd_time_voice_event last_cmd_time_handle_serial_data)
      blast
qed

theorem failsafe_tick_witness:
  "sent (update_status 100 100.2 connected_app) = sent connected_app @ [''D''] @ [''S'']
   \<and> last_cmd_time (update_status 100 100.2 connected_app) = 100.2
   \<and> sent (update_status 101 101 (update_status 100 100.2 connected_app))
       = sent connected_app @ [''D''] @ [''S''] @ [''D'']
   \<and> last_cmd_time (on_press Key_up connected_app) = last_cmd_time connected_app"
proof -
  have h: "link_up connected_app" "5 < 100 - last_cmd_time connected_app"
    "101 - 100.2 \<le> (5::real)" "current_mode connected_app \<in> {''A'', ''N'', ''V''}"
    by (simp_all add: connected_app_eq init_app_def link_up_def)
  from failsafe_tick [of connected_app 100 "100.2" 101 101 Key_up] h show ?thesis by simp
qed

section \<open>Mode switches\<close>

lemma switch_mode_no_voice_up:
  assumes "voice_thread st = None" "link_up st"
  shows "current_mode (switch_mode m st) = m" "sent (switch_mode m st) = sent st @ [m]"
    "link_up (switch_mode m st)"
proof -
  from assms(2) obtain th' where
    "thread_send m st = Some (True, st\<lparr>serial_thread := Some th'\<rparr>)"
    "wire th' = sent st @ [m]" "link_up (st\<lparr>serial_thread := Some th'\<rparr>)"
    by (rule thread_send_link_up)
  then show "current_mode (switch_mode m st) = m" "sent (switch_mode m st) = sent st @ [m]"
    "link_up (switch_mode m st)"
    by (simp_all add: switch_mode_no_voice [OF assms(1)] Let_def sent_def link_up_def)
qed

lemma start_voice_up:
  assumes "link_up st"
  shows "current_mode (start_voice st) = current_mode st"
    "sent (start_voice st) = sent st @ [''V'']"
proof -
  from assms obtain th' where
    "thread_send ''V'' st = Some (True, st\<lparr>serial_thread := Some th'\<rparr>)"
    "wire th' = sent st @ [''V'']"
    by (rule thread_send_link_up)
  then show "current_mode (start_voice st) = current_mode st"
    "sent (start_voice st) = sent st @ [''V'']"
    by (simp_all add: start_voice_def sent_def)
qed

lemma toggle_voice_up:
  assumes "link_up st" "current_mode st = ''N''"
  shows "current_mode (toggle_voice st) = ''N''" "\<exists>rest. sent (toggle_voice st) = sent st @ rest"
proof -
  let ?st' = "st\<lparr>voice_thread := None, voice_btn := False, voice_status_label := NotActive\<rparr>"
  have v: "voice_thread ?st' = None" and l: "link_up ?st'" and s: "sent ?st' = sent st"
    using assms(1) by (simp_all add: link_up_def sent_def)
  show "current_mode (toggle_voice st) = ''N''"
    using switch_mode_no_voice_up(1) [OF v l, of "''N''"] start_voice_up(1) [OF assms(1)] assms(2)
    by (simp add: toggle_voice.simps [of st] Let_def)
  show "\<exists>rest. sent (toggle_voice st) = sent st @ rest"
    using switch_mode_no_voice_up(2) [OF v l, of "''N''"] start_voice_up(2) [OF assms(1)] s
    by (simp add: toggle_voice.simps [of st] Let_def sent_def)
qed

lemma switch_mode_up:
  assumes "link_up st"
  shows "current_mode (switch_mode m st) = m"
    and "\<exists>rest. sent (switch_mode m st) = sent st @ m # rest"
proof -
  from assms obtain th' where ts:
    "thread_send m st = Some (True, st\<lparr>serial_thread := Some th'\<rparr>)"
    "wire th' = sent st @ [m]" "link_up (st\<lparr>serial_thread := Some th'\<rparr>)"
    by (rule thread_send_link_up)
  let ?st2 = "st\<lparr>serial_thread := Some th', current_mode := ''N'', mode_label := ''N'',
      normal_status := normal_status st @ [NormalActivated]\<rparr>"
  have l: "link_up ?st2" and c: "current_mode ?st2 = ''N''" and s: "sent ?st2 = sent st @ [m]"
    using ts by (simp_all add: link_up_def sent_def)
  from toggle_voice_up [OF l c] obtain rest where
    t: "current_mode (toggle_voice ?st2) = ''N''" "sent (toggle_voice ?st2) = sent ?st2 @ rest"
    by blast
  show "current_mode (switch_mode m st) = m"
    using ts t(1) by (simp add: switch_mode.simps [of m st] Let_def)
  show "\<exists>rest. sent (switch_mode m st) = sent st @ m # rest"
    using ts t(2) s by (auto simp: switch_mode.simps [of m st] Let_def sent_def)
qed

lemma switch_mode_down:
  assumes "\<not> link_up st"
  shows "current_mode (switch_mode m st) = current_mode st"
  using thread_send_link_down [OF assms, of m]
  by (auto simp: switch_mode.simps [of m st])

lemma start_voice_down:
  assumes "\<not> link_up st"
  shows "current_mode (start_voice st) = current_mode st"
  using thread_send_link_down [OF assms, of "''V''"]
  by (auto simp: start_voice_def)

lemma toggle_voice_down:
  assumes "\<not> link_up st"
  shows "current_mode (toggle_voice st) = current_mode st"
proof -
  let ?st' = "st\<lparr>voice_thread := None, voice_btn := False, voice_status_label := NotActive\<rparr>"
  from assms have "\<not> link_up ?st'" by (simp add: link_up_def)
  from switch_mode_down [OF this, of "''N''"] start_voice_down [OF assms]
  show ?thesis by (simp add: toggle_voice.simps [of st] Let_def)
qed

lemma switch_mode_no_port:
  assumes "serial_thread st = None
     \<or> (\<exists>th. serial_thread st = Some th
           \<and> (ser th = None \<or> (\<exists>p. ser th = Some p \<and> \<not> is_open p)))"
  shows "switch_mode m st = st"
  using assms by (auto simp: switch_mode.simps [of m st] thread_send_eq)

lemma switch_mode_faulty:
  assumes "serial_thread st = Some th" "ser th = Some p" "is_open p" "faulty p"
  shows "serial_thread (switch_mode m st) = None"
    and "shown (switch_mode m st) = shown st @ [SerialWriteError]"
  using assms
  by (simp_all add: switch_mode.simps [of m st] thread_send_eq show_error_def
      disconnect_serial_def Let_def split: option.splits)

lemma toggle_voice_request:
  assumes "link_up st" "\<forall>vt. voice_thread st = Some vt \<longrightarrow> \<not> v_alive vt"
  shows "current_mode (toggle_voice st) = current_mode st"
    and "sent (toggle_voice st) = sent st @ [''V'']"
proof -
  from assms(2) have "toggle_voice st = start_voice st"
    by (auto simp: toggle_voice.simps [of st] split: option.splits)
  with start_voice_up [OF assms(1)]
  show "current_mode (toggle_voice st) = current_mode st"
    and "sent (toggle_voice st) = sent st @ [''V'']"
    by simp_all
qed

lemma mode_V_ack: "current_mode (handle_serial_data ''Mode:V'' st) = ''V''"
  by (simp add: handle_serial_data_def strip_def is_space_def Let_def)

text \<open>
  C2, as the claim states it, fails for the request the Auto button makes: in a
  connected session in mode \<open>N\<close>, \<open>switch_mode('A')\<close> writes \<open>A\<close> and sets the current
  mode to \<open>A\<close> at once, with no line from the rover.
\<close>

theorem auto_request_counterexample:
  "current_mode connected_app = ''N''
   \<and> current_mode (switch_mode ''A'' connected_app) = ''A''
   \<and> sent (switch_mode ''A'' connected_app) = [''N'', ''A'']"
  by (simp add: switch_mode.simps run_defs)

text \<open>
  C2, amended. A request for Voice is \<open>toggle_voice\<close> with no voice thread running:
  when the port accepts the write it sends \<open>V\<close> and leaves the current mode as it was,
  and the line \<open>Mode:V\<close> then sets it to \<open>V\<close>. A request for Auto or Normal is
  \<open>switch_mode\<close>: when the port accepts the write it sends the mode character first and
  the current mode is the requested one when it returns, without any acknowledgement.
  When the write does not succeed the current mode stays as it was: with no thread or no
  open port nothing changes at all, and a write that raises tears the session down.
\<close>

theorem mode_request_effect:
  "(link_up st \<and> (m = ''A'' \<or> m = ''N'') \<longrightarrow>
      current_mode (switch_mode m st) = m
      \<and> (\<exists>rest. sent (switch_mode m st) = sent st @ m # rest))
   \<and> (link_up st \<and> (\<forall>vt. voice_thread st = Some vt \<longrightarrow> \<not> v_alive vt) \<longrightarrow>
      current_mode (toggle_voice st) = current_mode st
      \<and> sent (toggle_voice st) = sent st @ [''V'']
      \<and> current_mode (handle_serial_data ''Mode:V'' (toggle_voice st)) = ''V'')
   \<and> (\<not> link_up st \<longrightarrow>
      current_mode (switch_mode m st) = current_mode st
      \<and> current_mode (toggle_voice st) = current_mode st)
   \<and> (serial_thread st = None
        \<or> (\<exists>th. serial_thread st = Some th
              \<and> (ser th = None \<or> (\<exists>p. ser th = Some p \<and> \<not> is_open p))) \<longrightarrow>
      switch_mode m st = st)
   \<and> ((\<exists>th p. serial_thread st = Some th \<and> ser th = Some p \<and> is_open p \<and> faulty p) \<longrightarrow>
      serial_thread (switch_mode m st) = None
      \<and> shown (switch_mode m st) = shown st @ [SerialWriteError])"
proof (intro conjI impI)
  assume a: "link_up st \<and> (m = ''A'' \<or> m = ''N'')"
  then show "current_mode (switch_mode m st) = m"
    and "\<exists>rest. sent (switch_mode m st) = sent st @ m # rest"
    using switch_mode_up [of st m] by simp_all
next
  assume a: "link_up st \<and> (\<forall>vt. voice_thread st = Some vt \<longrightarrow> \<not> v_alive vt)"
  then show "current_mode (toggle_voice st) = current_mode st"
    and "sent (toggle_voice st) = sent st @ [''V'']"
    using toggle_voice_request [of st] by simp_all
  show "current_mode (handle_serial_data ''Mode:V'' (toggle_voice st)) = ''V''"
    by (rule mode_V_ack)
next
  assume "\<not> link_up st"
  then show "current_mode (switch_mode m st) = current_mode st"
    and "current_mode (toggle_voice st) = current_mode st"
    by (rule switch_mode_down toggle_voice_down)+
next
  assume "serial_thread st = None
        \<or> (\<exists>th. serial_thread st = Some th
              \<and> (ser th = None \<or> (\<exists>p. ser th = Some p \<and> \<not> is_open p)))"
  then show "switch_mode m st = st" by (rule switch_mode_no_port)
next
  assume "\<exists>th p. serial_thread st = Some th \<and> ser th = Some p \<and> is_open p \<and> faulty p"
  then obtain th p where "serial_thread st = Some th" "ser th = Some p" "is_open p" "faulty p"
    by blast
  then show "serial_thread (switch_mode m st) = None"
    and "shown (switch_mode m st) = shown st @ [SerialWriteError]"
    by (rule switch_mode_faulty)+
qed

theorem mode_request_effect_witness:
  "current_mode (switch_mode ''A'' connected_app) = ''A''
   \<and> (\<exists>rest. sent (switch_mode ''A'' connected_app) = sent connected_app @ ''A'' # rest)
   \<and> current_mode (toggle_voice connected_app) = current_mode connected_app
   \<and> sent (toggle_voice connected_app) = sent connected_app @ [''V'']
   \<and> current_mode (handle_serial_data ''Mode:V'' (toggle_voice connected_app)) = ''V''
   \<and> current_mode (switch_mode ''A'' init_app) = current_mode init_app
   \<and> switch_mode ''A'' init_app = init_app"
proof -
  have h: "link_up connected_app" "\<not> link_up init_app" "serial_thread init_app = None"
    "\<forall>vt. voice_thread connected_app = Some vt \<longrightarrow> \<not> v_alive vt"
    by (simp_all add: connected_app_eq init_app_def link_up_def)
  have a: "current_mode (switch_mode ''A'' connected_app) = ''A''
      \<and> (\<exists>rest. sent (switch_mode ''A'' connected_app) = sent connected_app @ ''A'' # rest)"
    using mode_request_effect [of connected_app "''A''"] h(1) by simp
  have b: "current_mode (toggle_voice connected_app) = current_mode connected_app
      \<and> sent (toggle_voice connected_app) = sent connected_app @ [''V'']
      \<and> current_mode (handle_serial_data ''Mode:V'' (toggle_voice connected_app)) = ''V''"
    using mode_request_effect [of connected_app "''A''"] h(1,4) by simp
  have c: "current_mode (switch_mode ''A'' init_app) = current_mode init_app
      \<and> switch_mode ''A'' init_app = init_app"
    using mode_request_effect [of init_app "''A''"] h(2,3) by simp
  from a b c show ?thesis by simp
qed

section \<open>Voice commands\<close>

lemma voice_iteration_no_mode:
  "voice_event h (st\<lparr>current_mode := m\<rparr>) = (voice_event h st)\<lparr>current_mode := m\<rparr>"
  by (cases h)
    (auto simp: voice_event_def voice_iteration_def send_def emitted_since_def show_error_def
      disconnect_serial_def Let_def split: option.splits)

text \<open>
  C4, as the claim states it, fails. \<open>toggle_voice\<close> starts the voice thread and
  leaves the current mode at \<open>N\<close>; the transcript "forward" is then written as \<open>F\<close>
  in mode \<open>N\<close>. And after the rover has acknowledged \<open>V\<close> and the operator has
  switched to \<open>A\<close>, the voice thread still runs: "go back" is written as \<open>B\<close> in
  mode \<open>A\<close>.
\<close>

theorem voice_dispatch_counterexample:
  "current_mode (toggle_voice connected_app) = ''N''
   \<and> sent (toggle_voice connected_app) = [''N'', ''V'']
   \<and> sent (voice_event (Transcript ''forward'') (toggle_voice connected_app))
       = [''N'', ''V'', ''F'']
   \<and> current_mode (switch_mode ''A'' (handle_serial_data ''Mode:V'' (toggle_voice connected_app)))
       = ''A''
   \<and> sent (voice_event (Transcript ''go back'')
        (switch_mode ''A'' (handle_serial_data ''Mode:V'' (toggle_voice connected_app))))
       = [''N'', ''V'', ''A'', ''B'']"
  by (simp add: toggle_voice.simps switch_mode.simps start_voice_def VoiceThread_def
      voice_event_def voice_iteration_def command_map_def handle_serial_data_def
      strip_def is_space_def run_defs)

text \<open>
  C4, amended. While a voice thread is running and the port accepts writes, the command
  of a recognised transcript is written, whatever the current mode is: the pass of the
  voice thread does not read the mode (changing the mode before the pass or after it gives
  the same state). With no voice thread nothing is dispatched.
\<close>

theorem voice_dispatch_ignores_mode:
  "(link_up st \<and> voice_thread st = Some vt \<and> v_running vt \<and> v_alive vt
      \<and> first_key_in command_map text = Some c \<longrightarrow>
        sent (voice_event (Transcript text) st) = sent st @ [c])
   \<and> (voice_thread st = None \<longrightarrow> voice_event h st = st)
   \<and> voice_event h (st\<lparr>current_mode := m\<rparr>) = (voice_event h st)\<lparr>current_mode := m\<rparr>"
proof (intro conjI impI)
  show "voice_event h (st\<lparr>current_mode := m\<rparr>) = (voice_event h st)\<lparr>current_mode := m\<rparr>"
    by (rule voice_iteration_no_mode)
  show "voice_event h st = st" if "voice_thread st = None"
    using that by (simp add: voice_event_def)
  show "sent (voice_event (Transcript text) st) = sent st @ [c]"
    if "link_up st \<and> voice_thread st = Some vt \<and> v_running vt \<and> v_alive vt
      \<and> first_key_in command_map text = Some c"
    using that
    by (auto simp: voice_event_def voice_iteration_def link_up_def send_def emitted_since_def
        sent_def wire_def split: option.splits)
qed

theorem voice_dispatch_ignores_mode_witness:
  "sent (voice_event (Transcript ''forward'') (toggle_voice connected_app))
     = sent (toggle_voice connected_app) @ [''F'']
   \<and> voice_event (Transcript ''forward'') connected_app = connected_app"
proof -
  have h: "link_up (toggle_voice connected_app)"
    "voice_thread (toggle_voice connected_app) = Some VoiceThread"
    "v_running VoiceThread" "v_alive VoiceThread"
    "first_key_in command_map ''forward'' = Some ''F''"
    "voice_thread connected_app = None"
    by (simp_all add: toggle_voice.simps start_voice_def VoiceThread_def command_map_def run_defs)
  from voice_dispatch_ignores_mode
      [of "toggle_voice connected_app" VoiceThread "''forward''" "''F''"] 
    voice_dispatch_ignores_mode [of connected_app VoiceThread "''forward''" "''F''"
      "Transcript ''forward''"] h
  show ?thesis by blast
qed

section \<open>Telemetry\<close>

lemma startswith_set: "startswith s p \<Longrightarrow> set p \<subseteq> set s"
  by (induction s p rule: startswith.induct) auto

lemma contains_set: "contains sub s \<Longrightarrow> set sub \<subseteq> set s"
proof (induction s)
  case Nil
  then show ?case by simp
next
  case (Cons c cs)
  then show ?case using startswith_set [of "c # cs" sub] by auto
qed

lemma split_on_not_Nil: "split_on sep s \<noteq> []"
  by (induction s) (auto split: list.splits)

lemma split_on_no_sep: "sep \<notin> set s \<Longrightarrow> split_on sep s = [s]"
  by (induction s) auto

lemma split_on_two: "sep \<in> set s \<Longrightarrow> \<exists>x y ys. split_on sep s = x # y # ys"
proof (induction s)
  case Nil
  then show ?case by simp
next
  case (Cons c cs)
  show ?case
  proof (cases "c = sep")
    case True
    obtain y ys where "split_on sep cs = y # ys"
      using split_on_not_Nil [of sep cs] by (cases "split_on sep cs") auto
    with True show ?thesis by simp
  next
    case False
    with Cons.prems have "sep \<in> set cs" by simp
    from Cons.IH [OF this] obtain x y ys where "split_on sep cs = x # y # ys" by blast
    with False show ?thesis by simp
  qed
qed

lemma index1_split_Mode:
  assumes "contains ''Mode:'' d"
  obtains f where "index1 (split_on CHR '':'' d) = Some f"
proof -
  from contains_set [OF assms] have "CHR '':'' \<in> set d" by simp
  from split_on_two [OF this] obtain x y ys where "split_on CHR '':'' d = x # y # ys" by blast
  then have "index1 (split_on CHR '':'' d) = Some y" by simp
  then show ?thesis by (rule that)
qed

lemma disconnected_show_error:
  "serial_thread (show_error m st) = None" "voice_thread (show_error m st) = None"
  "\<not> listener (show_error m st)"
  by (simp_all add: show_error_def disconnect_serial_def Let_def split: option.splits)

text \<open>
  C7, as the claim states it, fails: the line \<open>Mode:X\<close> sets the current mode and the
  mode label to \<open>X\<close>.
\<close>

theorem mode_line_counterexample:
  "current_mode connected_app = ''N''
   \<and> current_mode (handle_serial_data ''Mode:X'' connected_app) = ''X''
   \<and> mode_label (handle_serial_data ''Mode:X'' connected_app) = ''X''
   \<and> handle_serial_data ''Mode:X'' connected_app \<noteq> connected_app"
proof -
  have c: "current_mode connected_app = ''N''"
    by (simp add: connected_app_eq init_app_def)
  have x: "current_mode (handle_serial_data ''Mode:X'' connected_app) = ''X''"
    "mode_label (handle_serial_data ''Mode:X'' connected_app) = ''X''"
    by (simp_all add: handle_serial_data_def strip_def is_space_def Let_def)
  from c x(1) have "handle_serial_data ''Mode:X'' connected_app \<noteq> connected_app" by auto
  with c x show ?thesis by simp
qed

text \<open>
  C7, amended. A line without "Error" that contains "Mode:" sets the current mode and
  the mode label to the text between its first and second colon, stripped of white space,
  whatever that text is; it sets the auto status and appends one log line, and changes
  nothing else. For a line \<open>Mode:<value>\<close> that text is the value.
\<close>

theorem mode_line_sets_mode:
  "(\<not> contains ''Error'' d \<and> contains ''Mode:'' d \<longrightarrow>
      (\<exists>f. index1 (split_on CHR '':'' d) = Some f
         \<and> handle_serial_data d st =
             st\<lparr>current_mode := strip f, mode_label := strip f,
                auto_status := AutoMode (strip f = ''A''),
                log_text := log_text st @ [LogModeSet (strip f)]\<rparr>))
   \<and> (CHR '':'' \<notin> set v \<and> \<not> contains ''Error'' v \<longrightarrow>
        handle_serial_data (''Mode:'' @ v) st =
          st\<lparr>current_mode := strip v, mode_label := strip v,
             auto_status := AutoMode (strip v = ''A''),
             log_text := log_text st @ [LogModeSet (strip v)]\<rparr>)"
proof (intro conjI impI)
  assume a: "\<not> contains ''Error'' d \<and> contains ''Mode:'' d"
  then obtain f where "index1 (split_on CHR '':'' d) = Some f"
    by (auto elim: index1_split_Mode)
  with a show "\<exists>f. index1 (split_on CHR '':'' d) = Some f
         \<and> handle_serial_data d st =
             st\<lparr>current_mode := strip f, mode_label := strip f,
                auto_status := AutoMode (strip f = ''A''),
                log_text := log_text st @ [LogModeSet (strip f)]\<rparr>"
    by (simp add: handle_serial_data_def Let_def)
next
  assume a: "CHR '':'' \<notin> set v \<and> \<not> contains ''Error'' v"
  then have "split_on CHR '':'' v = [v]" by (simp add: split_on_no_sep)
  with a show "handle_serial_data (''Mode:'' @ v) st =
          st\<lparr>current_mode := strip v, mode_label := strip v,
             auto_status := AutoMode (strip v = ''A''),
             log_text := log_text st @ [LogModeSet (strip v)]\<rparr>"
    by (simp add: handle_serial_data_def Let_def)
qed

theorem mode_line_sets_mode_witness:
  "handle_serial_data ''Mode:X'' connected_app =
     connected_app\<lparr>current_mode := ''X'', mode_label := ''X'', auto_status := AutoMode False,
       log_text := log_text connected_app @ [LogModeSet ''X'']\<rparr>
   \<and> (\<exists>f. index1 (split_on CHR '':'' ''a:Mode:V'') = Some f
         \<and> handle_serial_data ''a:Mode:V'' connected_app =
             connected_app\<lparr>current_mode := strip f, mode_label := strip f,
                auto_status := AutoMode (strip f = ''A''),
                log_text := log_text connected_app @ [LogModeSet (strip f)]\<rparr>)"
proof -
  have h: "CHR '':'' \<notin> set ''X''" "\<not> contains ''Error'' ''X''"
    "\<not> contains ''Error'' ''a:Mode:V''" "contains ''Mode:'' ''a:Mode:V''"
    "strip ''X'' = ''X''"
    by (simp_all add: strip_def is_space_def)
  from mode_line_sets_mode [of "''a:Mode:V''" connected_app "''X''"] h
  show ?thesis by simp
qed

lemma moisture_percent_in_range:
  assumes "s \<le> 1023"
  shows "moisture_percent s = ((1023 - s) * 100) div 1023"
proof -
  have "(1023 - real_of_int s) / 1023 * 100 = real_of_int ((1023 - s) * 100) / real_of_int 1023"
    by simp
  moreover have "0 \<le> real_of_int ((1023 - s) * 100) / real_of_int 1023"
    using assms by simp
  ultimately show ?thesis
    unfolding moisture_percent_def trunc_def
    by (simp only: if_True floor_divide_of_int_eq)
qed

lemma moisture_percent_above:
  assumes "1023 < s"
  shows "moisture_percent s = - (((s - 1023) * 100) div 1023)"
proof -
  have e: "(1023 - real_of_int s) / 1023 * 100
      = - (real_of_int ((s - 1023) * 100) / real_of_int 1023)"
    by (simp add: field_simps)
  have "\<not> 0 \<le> (1023 - real_of_int s) / 1023 * 100"
    using assms by (simp add: field_simps)
  then have "moisture_percent s = \<lceil>(1023 - real_of_int s) / 1023 * 100\<rceil>"
    by (simp add: moisture_percent_def trunc_def)
  also have "\<dots> = - \<lfloor>real_of_int ((s - 1023) * 100) / real_of_int 1023\<rfloor>"
    unfolding e by (simp only: ceiling_minus)
  also have "\<dots> = - (((s - 1023) * 100) div 1023)"
    by (simp only: floor_divide_of_int_eq)
  finally show ?thesis .
qed

lemma py_int_512: "py_int ''512'' = Some 512"
  by (simp add: py_int_def int_strip_def is_int_space_def is_digit_def digit_val_def
      max_str_digits_def)

text \<open>
  C8, as the claim states it, fails: for \<open>Soil:512\<close> the percentage shown is 49,
  while rounding \<open>(1023 - 512) / 1023 * 100\<close> gives 50.
\<close>

theorem soil_percent_counterexample:
  "soil_tooltip (handle_serial_data ''Soil:512'' init_app) = Some 49
   \<and> round ((1023 - 512) / 1023 * 100 :: real) = 50"
proof -
  have "moisture_percent 512 = 49"
    by (simp add: moisture_percent_def trunc_def)
  then have "soil_tooltip (handle_serial_data ''Soil:512'' init_app) = Some 49"
    by (simp add: handle_serial_data_def py_int_512 setValue_def)
  moreover have "round ((1023 - 512) / 1023 * 100 :: real) = 50"
    by (simp add: round_def)
  ultimately show ?thesis by simp
qed

text \<open>
  C8, amended. For \<open>Soil:512\<close> the bar is set to 512 and the percentage shown is 49.
  In general, a soil line whose second field parses as an integer \<open>s\<close> of 32 bits shows
  the percentage \<open>(1023 - s) / 1023 * 100\<close> truncated towards zero, which is
  \<open>(1023 - s) * 100 div 1023\<close> for \<open>s\<close> up to 1023 and the negated quotient of
  \<open>(s - 1023) * 100\<close> above; the bar takes the value \<open>s\<close> when \<open>s\<close> is within 0..1023
  and keeps the value it holds otherwise. An integer that does not fit 32 bits is logged
  as invalid soil data, with no percentage.
\<close>

theorem soil_percent_truncates:
  "(s \<le> 1023 \<longrightarrow> moisture_percent s = ((1023 - s) * 100) div 1023)
   \<and> (1023 < s \<longrightarrow> moisture_percent s = - (((s - 1023) * 100) div 1023))
   \<and> (\<not> contains ''Error'' d \<and> \<not> contains ''Mode:'' d \<and> startswith d ''Soil:''
        \<and> index1 (split_on CHR '':'' d) = Some f \<and> py_int f = Some s
        \<and> - 2147483648 \<le> s \<and> s \<le> 2147483647 \<longrightarrow>
        handle_serial_data d st =
          st\<lparr>soil_bar := (if 0 \<le> s \<and> s \<le> 1023 then s else soil_bar st),
             soil_tooltip := Some (moisture_percent s),
             log_text := log_text st @ [LogSoil s (moisture_percent s)]\<rparr>)
   \<and> (\<not> contains ''Error'' d \<and> \<not> contains ''Mode:'' d \<and> startswith d ''Soil:''
        \<and> index1 (split_on CHR '':'' d) = Some f \<and> py_int f = Some s
        \<and> (s < - 2147483648 \<or> 2147483647 < s) \<longrightarrow>
        handle_serial_data d st = st\<lparr>log_text := log_text st @ [LogInvalidSoil]\<rparr>)
   \<and> handle_serial_data ''Soil:512'' st =
        st\<lparr>soil_bar := 512, soil_tooltip := Some 49, log_text := log_text st @ [LogSoil 512 49]\<rparr>"
proof (intro conjI impI)
  show "moisture_percent s = ((1023 - s) * 100) div 1023" if "s \<le> 1023"
    using that by (rule moisture_percent_in_range)
  show "moisture_percent s = - (((s - 1023) * 100) div 1023)" if "1023 < s"
    using that by (rule moisture_percent_above)
  show "handle_serial_data d st =
          st\<lparr>soil_bar := (if 0 \<le> s \<and> s \<le> 1023 then s else soil_bar st),
             soil_tooltip := Some (moisture_percent s),
             log_text := log_text st @ [LogSoil s (moisture_percent s)]\<rparr>"
    if "\<not> contains ''Error'' d \<and> \<not> contains ''Mode:'' d \<and> startswith d ''Soil:''
        \<and> index1 (split_on CHR '':'' d) = Some f \<and> py_int f = Some s
        \<and> - 2147483648 \<le> s \<and> s \<le> 2147483647"
    using that by (simp add: handle_serial_data_def setValue_def)
  show "handle_serial_data d st = st\<lparr>log_text := log_text st @ [LogInvalidSoil]\<rparr>"
    if "\<not> contains ''Error'' d \<and> \<not> contains ''Mode:'' d \<and> startswith d ''Soil:''
        \<and> index1 (split_on CHR '':'' d) = Some f \<and> py_int f = Some s
        \<and> (s < - 2147483648 \<or> 2147483647 < s)"
    using that by (auto simp: handle_serial_data_def setValue_def)
  have "moisture_percent 512 = 49"
    by (simp add: moisture_percent_in_range)
  then show "handle_serial_data ''Soil:512'' st =
        st\<lparr>soil_bar := 512, soil_tooltip := Some 49, log_text := log_text st @ [LogSoil 512 49]\<rparr>"
    by (simp add: handle_serial_data_def py_int_512 setValue_def)
qed

theorem soil_percent_truncates_witness:
  "moisture_percent 0 = 100 \<and> moisture_percent 1023 = 0 \<and> moisture_percent 1013 = 0
   \<and> moisture_percent 2000 = - 95
   \<and> handle_serial_data ''Soil: 7_0 '' init_app =
       init_app\<lparr>soil_bar := 70, soil_tooltip := Some (moisture_percent 70),
         log_text := log_text init_app @ [LogSoil 70 (moisture_percent 70)]\<rparr>
   \<and> handle_serial_data ''Soil:2000'' init_app =
       init_app\<lparr>soil_bar := soil_bar init_app, soil_tooltip := Some (moisture_percent 2000),
         log_text := log_text init_app @ [LogSoil 2000 (moisture_percent 2000)]\<rparr>
   \<and> handle_serial_data ''Soil:2147483648'' init_app =
       init_app\<lparr>log_text := log_text init_app @ [LogInvalidSoil]\<rparr>"
proof -
  have m: "moisture_percent 0 = 100 \<and> moisture_percent 1023 = 0 \<and> moisture_percent 1013 = 0
      \<and> moisture_percent 2000 = - 95"
    using soil_percent_truncates [of 0] soil_percent_truncates [of 1023]
      soil_percent_truncates [of 1013] soil_percent_truncates [of 2000]
    by simp
  have p: "py_int '' 7_0 '' = Some 70" "py_int ''2000'' = Some 2000"
    "py_int ''2147483648'' = Some 2147483648"
    by (simp_all add: py_int_def int_strip_def is_int_space_def is_digit_def digit_val_def
        max_str_digits_def)
  have a: "handle_serial_data ''Soil: 7_0 '' init_app =
       init_app\<lparr>soil_bar := 70, soil_tooltip := Some (moisture_percent 70),
         log_text := log_text init_app @ [LogSoil 70 (moisture_percent 70)]\<rparr>"
    using soil_percent_truncates [of 70 "''Soil: 7_0 ''" "'' 7_0 ''" init_app] p(1) by simp
  have b: "handle_serial_data ''Soil:2000'' init_app =
       init_app\<lparr>soil_bar := soil_bar init_app, soil_tooltip := Some (moisture_percent 2000),
         log_text := log_text init_app @ [LogSoil 2000 (moisture_percent 2000)]\<rparr>"
    using soil_percent_truncates [of 2000 "''Soil:2000''" "''2000''" init_app] p(2) by simp
  have c: "handle_serial_data ''Soil:2147483648'' init_app =
       init_app\<lparr>log_text := log_text init_app @ [LogInvalidSoil]\<rparr>"
    using soil_percent_truncates [of 2147483648 "''Soil:2147483648''" "''2147483648''" init_app]
      p(3) by simp
  show ?thesis by (intro conjI conjunct1 [OF m] a b c)
      (use m in simp_all)
qed

text \<open>
  C9. The tests of \<open>handle_serial_data\<close> are tried in order. A line that contains
  "Error" anywhere goes to \<open>show_error\<close>, which tears the session down, whatever else
  it contains. Otherwise a line that contains "Mode:" anywhere sets the mode. Otherwise
  only a line that starts with "Soil:" is taken as a soil line (a reading, or invalid soil
  data) and only a line that starts with "Dist:" is a distance; a line that merely
  contains them is logged as received.
\<close>

theorem telemetry_classification_order:
  "(contains ''Error'' d \<longrightarrow>
      handle_serial_data d st = show_error (ErrorLine d) st
      \<and> serial_thread (handle_serial_data d st) = None
      \<and> voice_thread (handle_serial_data d st) = None
      \<and> \<not> listener (handle_serial_data d st))
   \<and> (\<not> contains ''Error'' d \<and> contains ''Mode:'' d \<longrightarrow>
        (\<exists>f. index1 (split_on CHR '':'' d) = Some f
           \<and> current_mode (handle_serial_data d st) = strip f
           \<and> log_text (handle_serial_data d st) = log_text st @ [LogModeSet (strip f)]))
   \<and> (\<not> contains ''Error'' d \<and> \<not> contains ''Mode:'' d
        \<and> \<not> startswith d ''Soil:'' \<and> \<not> startswith d ''Dist:''
        \<and> d \<noteq> ''Connected to Arduino'' \<longrightarrow>
        handle_serial_data d st = st\<lparr>log_text := log_text st @ [LogReceived d]\<rparr>)
   \<and> (\<not> contains ''Error'' d \<and> \<not> contains ''Mode:'' d \<and> startswith d ''Soil:'' \<longrightarrow>
        handle_serial_data d st = st\<lparr>log_text := log_text st @ [LogInvalidSoil]\<rparr>
        \<or> (\<exists>soil v.
              handle_serial_data d st =
                st\<lparr>soil_bar := v, soil_tooltip := Some (moisture_percent soil),
                   log_text := log_text st @ [LogSoil soil (moisture_percent soil)]\<rparr>))
   \<and> (\<not> contains ''Error'' d \<and> \<not> contains ''Mode:'' d \<and> startswith d ''Dist:'' \<longrightarrow>
        (\<exists>f. index1 (split_on CHR '':'' d) = Some f
           \<and> handle_serial_data d st = st\<lparr>dist_label := strip f @ '' cm''\<rparr>))"
proof (intro conjI impI)
  assume "contains ''Error'' d"
  then show "handle_serial_data d st = show_error (ErrorLine d) st"
    "serial_thread (handle_serial_data d st) = None"
    "voice_thread (handle_serial_data d st) = None"
    "\<not> listener (handle_serial_data d st)"
    by (simp_all add: handle_serial_data_def disconnected_show_error)
next
  assume a: "\<not> contains ''Error'' d \<and> contains ''Mode:'' d"
  then obtain f where "index1 (split_on CHR '':'' d) = Some f"
    by (auto elim: index1_split_Mode)
  with a show "\<exists>f. index1 (split_on CHR '':'' d) = Some f
           \<and> current_mode (handle_serial_data d st) = strip f
           \<and> log_text (handle_serial_data d st) = log_text st @ [LogModeSet (strip f)]"
    by (simp add: handle_serial_data_def Let_def)
next
  assume "\<not> contains ''Error'' d \<and> \<not> contains ''Mode:'' d
        \<and> \<not> startswith d ''Soil:'' \<and> \<not> startswith d ''Dist:''
        \<and> d \<noteq> ''Connected to Arduino''"
  then show "handle_serial_data d st = st\<lparr>log_text := log_text st @ [LogReceived d]\<rparr>"
    by (simp add: handle_serial_data_def)
next
  assume a: "\<not> contains ''Error'' d \<and> \<not> contains ''Mode:'' d \<and> startswith d ''Soil:''"
  then have "CHR '':'' \<in> set d" using startswith_set [of d "''Soil:''"] by simp
  from split_on_two [OF this] obtain x y ys where "split_on CHR '':'' d = x # y # ys" by blast
  with a have "handle_serial_data d st =
      (case py_int y of
         None \<Rightarrow> st\<lparr>log_text := log_text st @ [LogInvalidSoil]\<rparr>
       | Some soil \<Rightarrow>
           (case setValue soil (soil_bar st) of
              None \<Rightarrow> st\<lparr>log_text := log_text st @ [LogInvalidSoil]\<rparr>
            | Some v \<Rightarrow>
                st\<lparr>soil_bar := v, soil_tooltip := Some (moisture_percent soil),
                   log_text := log_text st @ [LogSoil soil (moisture_percent soil)]\<rparr>))"
    by (simp add: handle_serial_data_def)
  then show "handle_serial_data d st = st\<lparr>log_text := log_text st @ [LogInvalidSoil]\<rparr>
        \<or> (\<exists>soil v.
              handle_serial_data d st =
                st\<lparr>soil_bar := v, soil_tooltip := Some (moisture_percent soil),
                   log_text := log_text st @ [LogSoil soil (moisture_percent soil)]\<rparr>)"
    by (cases "py_int y"; cases "setValue (the (py_int y)) (soil_bar st)") auto
next
  assume a: "\<not> contains ''Error'' d \<and> \<not> contains ''Mode:'' d \<and> startswith d ''Dist:''"
  then have "CHR '':'' \<in> set d" using startswith_set [of d "''Dist:''"] by simp
  from split_on_two [OF this] obtain x y ys where s: "split_on CHR '':'' d = x # y # ys" by blast
  from a have "\<not> startswith d ''Soil:''" by (cases d) auto
  with a s show "\<exists>f. index1 (split_on CHR '':'' d) = Some f
           \<and> handle_serial_data d st = st\<lparr>dist_label := strip f @ '' cm''\<rparr>"
    by (simp add: handle_serial_data_def)
qed

theorem telemetry_classification_order_witness:
  "handle_serial_data ''Mode:Error'' connected_app
     = show_error (ErrorLine ''Mode:Error'') connected_app
   \<and> handle_serial_data ''Soil:5 Error'' connected_app
     = show_error (ErrorLine ''Soil:5 Error'') connected_app
   \<and> serial_thread (handle_serial_data ''Soil:5 Error'' connected_app) = None
   \<and> (\<exists>f. index1 (split_on CHR '':'' ''xMode:V'') = Some f
         \<and> current_mode (handle_serial_data ''xMode:V'' connected_app) = strip f)
   \<and> handle_serial_data ''xSoil:5'' connected_app
     = connected_app\<lparr>log_text := log_text connected_app @ [LogReceived ''xSoil:5'']\<rparr>
   \<and> handle_serial_data ''xDist:5'' connected_app
     = connected_app\<lparr>log_text := log_text connected_app @ [LogReceived ''xDist:5'']\<rparr>
   \<and> (handle_serial_data ''Soil:5'' connected_app
         = connected_app\<lparr>log_text := log_text connected_app @ [LogInvalidSoil]\<rparr>
       \<or> (\<exists>soil v.
             handle_serial_data ''Soil:5'' connected_app =
               connected_app\<lparr>soil_bar := v, soil_tooltip := Some (moisture_percent soil),
                 log_text := log_text connected_app @ [LogSoil soil (moisture_percent soil)]\<rparr>))
   \<and> (\<exists>f. index1 (split_on CHR '':'' ''Dist: 12 '') = Some f
         \<and> handle_serial_data ''Dist: 12 '' connected_app
           = connected_app\<lparr>dist_label := strip f @ '' cm''\<rparr>)"
proof -
  have a: "handle_serial_data ''Mode:Error'' connected_app
     = show_error (ErrorLine ''Mode:Error'') connected_app"
    using telemetry_classification_order [of "''Mode:Error''" connected_app] by simp
  have h: "contains ''Error'' ''Soil:5 Error''" by simp
  have b1: "handle_serial_data ''Soil:5 Error'' connected_app
     = show_error (ErrorLine ''Soil:5 Error'') connected_app"
    using telemetry_classification_order [of "''Soil:5 Error''" connected_app] h by blast
  have b2: "serial_thread (handle_serial_data ''Soil:5 Error'' connected_app) = None"
    using telemetry_classification_order [of "''Soil:5 Error''" connected_app] h by blast
  have c: "\<exists>f. index1 (split_on CHR '':'' ''xMode:V'') = Some f
         \<and> current_mode (handle_serial_data ''xMode:V'' connected_app) = strip f"
    using telemetry_classification_order [of "''xMode:V''" connected_app] by simp
  have d: "handle_serial_data ''xSoil:5'' connected_app
     = connected_app\<lparr>log_text := log_text connected_app @ [LogReceived ''xSoil:5'']\<rparr>"
    using telemetry_classification_order [of "''xSoil:5''" connected_app] by simp
  have e: "handle_serial_data ''xDist:5'' connected_app
     = connected_app\<lparr>log_text := log_text connected_app @ [LogReceived ''xDist:5'']\<rparr>"
    using telemetry_classification_order [of "''xDist:5''" connected_app] by simp
  have f: "handle_serial_data ''Soil:5'' connected_app
         = connected_app\<lparr>log_text := log_text connected_app @ [LogInvalidSoil]\<rparr>
       \<or> (\<exists>soil v.
             handle_serial_data ''Soil:5'' connected_app =
               connected_app\<lparr>soil_bar := v, soil_tooltip := Some (moisture_percent soil),
                 log_text := log_text connected_app @ [LogSoil soil (moisture_percent soil)]\<rparr>)"
    using telemetry_classification_order [of "''Soil:5''" connected_app] by simp
  have g: "\<exists>f. index1 (split_on CHR '':'' ''Dist: 12 '') = Some f
         \<and> handle_serial_data ''Dist: 12 '' connected_app
           = connected_app\<lparr>dist_label := strip f @ '' cm''\<rparr>"
    using telemetry_classification_order [of "''Dist: 12 ''" connected_app] by simp
  show ?thesis by (intro conjI a b1 b2 c d e f g)
qed

end
